theory Spec2Isabelle
  imports Main
begin

section \<open>Data model of backend/server.py\<close>

text \<open>
  A Python \<open>str\<close> is a sequence of Unicode code points and \<open>len\<close> counts code points, so a
  text is a list of code points. \<open>py\<close> turns an ASCII literal of the source into that form.
  Times (\<open>datetime.now()\<close>, \<open>expires_at\<close>) are microseconds on a linear clock.
  An exception of a collaborator is carried as its message \<open>str(e)\<close>.
\<close>

type_synonym str = "nat list"
type_synonym bytes = "nat list"
type_synonym time = nat
type_synonym exn = string

definition py :: "string \<Rightarrow> str" where
  "py s = map of_char s"

text \<open>The \<open>detail\<close> of every \<open>HTTPException\<close> the source raises, one constructor per message.\<close>

datatype detail =
    TokenNotProvided
  | TokenInvalidOrExpired
  | UsernameOrEmailExists
  | RegistrationFailed
  | WrongUsernameOrPassword
  | LoginFailed
  | NoFilenameProvided
  | EmptyFile
  | CannotProcess str
  | CannotFetch exn
  | ProvideEitherFileOrURL
  | ContentTooShort
  | ProcessingFailed exn
  | NoDocumentUploaded
  | QuestionFailed exn

datatype http_error = HTTPException (status_code: nat) (detail: detail)

record Document =
  page_content :: str
  metadata :: "(str \<times> str) list"

text \<open>
  The index built by \<open>Chroma.from_documents\<close> is an opaque handle of the similarity-search
  service; \<open>as_retriever(search_kwargs={"k": 4})\<close> wraps the handle with its \<open>k\<close>.
\<close>

datatype vectorstore = Chroma nat

datatype retriever = VectorStoreRetriever vectorstore nat

text \<open>The five prompt templates, each with the values substituted into it.\<close>

datatype prompt =
    BasicPrompt str str
  | MultiQueryPrompt str
  | MultiQueryAnswerPrompt str str
  | HydePrompt str
  | HydeAnswerPrompt str str

text \<open>A fault of the relational store while a row is written: at \<open>execute\<close> or at \<open>commit\<close>.\<close>

datatype db_fault = NoFault | ExecuteFault exn | CommitFault exn

text \<open>
  The collaborators outside the repository, each a function of its arguments:
  PyPDF2, the UTF-8 decoder, \<open>urlparse\<close> (scheme and netloc), \<open>WebBaseLoader.load\<close>,
  \<open>RecursiveCharacterTextSplitter.split_documents\<close>, \<open>Chroma.from_documents\<close>, the
  retriever's similarity search, one \<open>prompt | llm | StrOutputParser()\<close> call, SHA-256,
  and whether the store fails on the next write.
\<close>

record env =
  pdf_extract_text :: "bytes \<Rightarrow> exn + str"
  decode_utf8 :: "bytes \<Rightarrow> str option"
  urlparse :: "str \<Rightarrow> exn + str \<times> str"
  web_load :: "str \<Rightarrow> exn + Document list"
  split_documents :: "Document list \<Rightarrow> exn + Document list"
  from_documents :: "Document list \<Rightarrow> exn + vectorstore"
  similarity_search :: "vectorstore \<Rightarrow> nat \<Rightarrow> str \<Rightarrow> exn + Document list"
  llm_invoke :: "prompt \<Rightarrow> exn + str"
  sha256_hexdigest :: "str \<Rightarrow> str"
  insert_fault :: db_fault

subsection \<open>The relational store\<close>

record user_row =
  u_id :: nat
  u_username :: str
  u_email :: str
  u_password_hash :: str

record session_row =
  s_user_id :: nat
  s_token :: str
  s_expires_at :: time

record document_row =
  d_id :: nat
  d_user_id :: nat
  d_filename :: str
  d_file_size :: nat
  d_chunks :: nat
  d_word_count :: nat
  d_source_type :: str

record conversation_row =
  c_user_id :: nat
  c_document_id :: nat
  c_question :: str
  c_answer :: str
  c_rag_type :: str

record database =
  tbl_users :: "user_row list"
  tbl_sessions :: "session_row list"
  tbl_documents :: "document_row list"
  tbl_conversations :: "conversation_row list"

text \<open>\<open>cursor.lastrowid\<close> of an \<open>AUTOINCREMENT\<close> key: one more than the largest key.\<close>

definition next_rowid :: "nat list \<Rightarrow> nat" where
  "next_rowid ids = Suc (fold max ids 0)"

subsection \<open>The per-user session and the registry \<open>user_sessions\<close>\<close>

record user_info =
  ui_user_id :: nat
  ui_username :: str
  ui_email :: str

record UserSession =
  user_id :: nat
  vectorstore :: "vectorstore option"
  retriever :: "retriever option"
  documents :: "Document list"
  source_name :: "str option"
  source_type :: "str option"
  document_id :: "nat option"

record state =
  user_sessions :: "nat \<rightharpoonup> UserSession"
  db :: database

definition new_UserSession :: "nat \<Rightarrow> UserSession" where
  "new_UserSession uid =
     \<lparr>user_id = uid, vectorstore = None, retriever = None, documents = [],
      source_name = None, source_type = None, document_id = None\<rparr>"

definition clear :: "UserSession \<Rightarrow> UserSession" where
  "clear s = s\<lparr>vectorstore := None, retriever := None, documents := [],
               source_name := None, source_type := None, document_id := None\<rparr>"

definition get_user_session ::
  "(nat \<rightharpoonup> UserSession) \<Rightarrow> user_info \<Rightarrow> UserSession \<times> (nat \<rightharpoonup> UserSession)" where
  "get_user_session reg ui =
     (case reg (ui_user_id ui) of
        None \<Rightarrow> (new_UserSession (ui_user_id ui),
                 reg(ui_user_id ui \<mapsto> new_UserSession (ui_user_id ui)))
      | Some s \<Rightarrow> (s, reg))"

text \<open>
  The session is a shared object: an assignment to one of its attributes is at once the
  registry's. \<open>store_session\<close> writes the object back under its owner's key.
\<close>

definition store_session :: "state \<Rightarrow> user_info \<Rightarrow> UserSession \<Rightarrow> state" where
  "store_session st ui s = st\<lparr>user_sessions := (user_sessions st)(ui_user_id ui \<mapsto> s)\<rparr>"

text \<open>What a request of the user finds as its session: \<open>get_user_session\<close> read-only.\<close>

definition session_of :: "state \<Rightarrow> user_info \<Rightarrow> UserSession" where
  "session_of st ui = fst (get_user_session (user_sessions st) ui)"

section \<open>Python string helpers\<close>

text \<open>\<open>str.isspace\<close> on one code point (CPython's \<open>_PyUnicode_IsWhitespace\<close>).\<close>

definition isspace :: "nat \<Rightarrow> bool" where
  "isspace c \<longleftrightarrow>
     (9 \<le> c \<and> c \<le> 13) \<or> (28 \<le> c \<and> c \<le> 32) \<or> c = 133 \<or> c = 160 \<or> c = 5760 \<or>
     (8192 \<le> c \<and> c \<le> 8202) \<or> c = 8232 \<or> c = 8233 \<or> c = 8239 \<or> c = 8287 \<or> c = 12288"

definition strip :: "str \<Rightarrow> str" where
  "strip s = rev (dropWhile isspace (rev (dropWhile isspace s)))"

text \<open>Splitting at every code point that satisfies \<open>p\<close>; empty pieces are kept.\<close>

fun split_at :: "(nat \<Rightarrow> bool) \<Rightarrow> str \<Rightarrow> str list" where
  "split_at p [] = [[]]"
| "split_at p (c # cs) =
     (if p c then [] # split_at p cs
      else (case split_at p cs of
              [] \<Rightarrow> [[c]]
            | w # ws \<Rightarrow> (c # w) # ws))"

text \<open>\<open>x.split("\n")\<close> and \<open>text.split()\<close>.\<close>

definition split_lines :: "str \<Rightarrow> str list" where
  "split_lines x = split_at (\<lambda>c. c = 10) x"

definition split_words :: "str \<Rightarrow> str list" where
  "split_words x = filter (\<lambda>w. w \<noteq> []) (split_at isspace x)"

text \<open>\<open>len(text.encode())\<close>: the UTF-8 length; a surrogate code point raises.\<close>

definition utf8_width :: "nat \<Rightarrow> nat" where
  "utf8_width c = (if c < 128 then 1 else if c < 2048 then 2 else if c < 65536 then 3 else 4)"

definition encoded_len :: "str \<Rightarrow> exn + nat" where
  "encoded_len s =
     (if \<exists>c \<in> set s. 55296 \<le> c \<and> c \<le> 57343 then Inl ''UnicodeEncodeError''
      else Inr (sum_list (map utf8_width s)))"

text \<open>\<open>sep.join(parts)\<close>.\<close>

fun join :: "str \<Rightarrow> str list \<Rightarrow> str" where
  "join sep [] = []"
| "join sep [x] = x"
| "join sep (x # y # ys) = x @ sep @ join sep (y # ys)"

text \<open>
  \<open>filename.lower().endswith('.pdf')\<close>: the last four code points are a dot and the letters
  p, d, f in either case (no other code point lowers to one of these four).
\<close>

definition lower_endswith_pdf :: "str \<Rightarrow> bool" where
  "lower_endswith_pdf fn \<longleftrightarrow>
     4 \<le> length fn \<and>
     (case drop (length fn - 4) fn of
        [a, b, c, d] \<Rightarrow> a = 46 \<and> (b = 80 \<or> b = 112) \<and> (c = 68 \<or> c = 100) \<and> (d = 70 \<or> d = 102)
      | _ \<Rightarrow> False)"

section \<open>Credential store\<close>

text \<open>
  The queries of the credential store are modelled on a store that answers; \<open>insert_fault\<close>
  concerns the rows written by the ingestion and question paths only.
  \<open>generate_token()\<close> draws from the system's random source and \<open>datetime.now()\<close> reads the
  clock: both are arguments of the operations that use them.
\<close>

definition seven_days :: time where
  "seven_days = 7 * 24 * 3600 * 1000000"

text \<open>
  The query of \<open>verify_token\<close>:
  \<open>FROM sessions s JOIN users u ON s.user_id = u.id WHERE s.token = ? AND s.expires_at > ?\<close>.
\<close>

definition select_session_user ::
  "database \<Rightarrow> str \<Rightarrow> time \<Rightarrow> (user_row \<times> session_row) list" where
  "select_session_user d t now =
     [(u, s). s \<leftarrow> tbl_sessions d, u \<leftarrow> tbl_users d,
              s_user_id s = u_id u, s_token s = t \<and> s_expires_at s > now]"

text \<open>
  \<open>verify_token\<close>: the header may be missing (\<open>None\<close>) or empty; otherwise \<open>fetchone\<close> takes
  the first row of the query.
\<close>

definition verify_token :: "database \<Rightarrow> time \<Rightarrow> str option \<Rightarrow> http_error + user_info" where
  "verify_token d now token =
     (case token of
        None \<Rightarrow> Inl (HTTPException 401 TokenNotProvided)
      | Some t \<Rightarrow>
          if t = [] then Inl (HTTPException 401 TokenNotProvided)
          else (case select_session_user d t now of
                  [] \<Rightarrow> Inl (HTTPException 401 TokenInvalidOrExpired)
                | (u, s) # _ \<Rightarrow>
                    Inr \<lparr>ui_user_id = u_id u, ui_username = u_username u, ui_email = u_email u\<rparr>))"

record RegisterRequest =
  rr_username :: str
  rr_email :: str
  rr_password :: str

record LoginRequest =
  lr_username :: str
  lr_password :: str

record AuthResponse =
  ar_token :: str
  ar_username :: str
  ar_email :: str

definition hash_password :: "env \<Rightarrow> str \<Rightarrow> str" where
  "hash_password e password = sha256_hexdigest e password"

text \<open>
  \<open>register\<close>: the column \<open>token\<close> is \<open>UNIQUE\<close>, so inserting a token already stored raises
  \<open>IntegrityError\<close>, caught as status 500; nothing was committed then.
\<close>

definition register ::
  "env \<Rightarrow> time \<Rightarrow> str \<Rightarrow> RegisterRequest \<Rightarrow> database \<Rightarrow> (http_error + AuthResponse) \<times> database" where
  "register e now token request d =
     (if \<exists>u \<in> set (tbl_users d). u_username u = rr_username request \<or> u_email u = rr_email request
      then (Inl (HTTPException 400 UsernameOrEmailExists), d)
      else
        let password_hash = hash_password e (rr_password request);
            uid = next_rowid (map u_id (tbl_users d));
            expires_at = now + seven_days
        in if token \<in> set (map s_token (tbl_sessions d))
           then (Inl (HTTPException 500 RegistrationFailed), d)
           else (Inr \<lparr>ar_token = token, ar_username = rr_username request,
                      ar_email = rr_email request\<rparr>,
                 d\<lparr>tbl_users := tbl_users d @
                      [\<lparr>u_id = uid, u_username = rr_username request,
                        u_email = rr_email request, u_password_hash = password_hash\<rparr>],
                   tbl_sessions := tbl_sessions d @
                      [\<lparr>s_user_id = uid, s_token = token, s_expires_at = expires_at\<rparr>]\<rparr>))"

definition login ::
  "env \<Rightarrow> time \<Rightarrow> str \<Rightarrow> LoginRequest \<Rightarrow> database \<Rightarrow> (http_error + AuthResponse) \<times> database" where
  "login e now token request d =
     (let password_hash = hash_password e (lr_password request)
      in case filter (\<lambda>u. u_username u = lr_username request \<and> u_password_hash u = password_hash)
                     (tbl_users d) of
           [] \<Rightarrow> (Inl (HTTPException 401 WrongUsernameOrPassword), d)
         | user # _ \<Rightarrow>
             let expires_at = now + seven_days
             in if token \<in> set (map s_token (tbl_sessions d))
                then (Inl (HTTPException 500 LoginFailed), d)
                else (Inr \<lparr>ar_token = token, ar_username = u_username user,
                           ar_email = u_email user\<rparr>,
                      d\<lparr>tbl_sessions := tbl_sessions d @
                           [\<lparr>s_user_id = u_id user, s_token = token,
                             s_expires_at = expires_at\<rparr>]\<rparr>))"

text \<open>
  \<open>logout\<close> is declared with \<open>user_info: dict = Depends(verify_token)\<close>: the framework runs
  \<open>verify_token\<close> on the same header first, and the body runs only if that returned.
  \<open>logout_body\<close> is the body, \<open>DELETE FROM sessions WHERE token = ?\<close>; a missing header binds
  SQL \<open>NULL\<close>, which equals no stored token.
\<close>

datatype message = LogoutSuccessful

definition logout_body :: "str option \<Rightarrow> database \<Rightarrow> message \<times> database" where
  "logout_body token d =
     (LogoutSuccessful,
      d\<lparr>tbl_sessions := filter (\<lambda>s. Some (s_token s) \<noteq> token) (tbl_sessions d)\<rparr>)"

definition logout :: "time \<Rightarrow> str option \<Rightarrow> database \<Rightarrow> (http_error + message) \<times> database" where
  "logout now token d =
     (case verify_token d now token of
        Inl err \<Rightarrow> (Inl err, d)
      | Inr user_info \<Rightarrow> (case logout_body token d of (m, d') \<Rightarrow> (Inr m, d')))"

section \<open>Ingestion\<close>

record UploadFile =
  filename :: "str option"
  content :: bytes

text \<open>
  \<open>extract_text_from_file\<close>: every exception inside, also the \<open>HTTPException\<close> of the inner
  handler, is caught by the outer \<open>except Exception\<close> and becomes status 400 with the file
  name. Latin-1 decodes every byte to the code point of the same number.
\<close>

definition extract_text_from_file :: "env \<Rightarrow> bytes \<Rightarrow> str \<Rightarrow> http_error + str" where
  "extract_text_from_file e file_content fname =
     (if lower_endswith_pdf fname then
        (case pdf_extract_text e file_content of
           Inl _ \<Rightarrow> Inl (HTTPException 400 (CannotProcess fname))
         | Inr text \<Rightarrow> Inr text)
      else
        (case decode_utf8 e file_content of
           Some text \<Rightarrow> Inr text
         | None \<Rightarrow> Inr file_content))"

definition extract_text_from_url :: "env \<Rightarrow> str \<Rightarrow> http_error + (str \<times> str)" where
  "extract_text_from_url e url =
     (case urlparse e url of
        Inl err \<Rightarrow> Inl (HTTPException 400 (CannotFetch err))
      | Inr (scheme, netloc) \<Rightarrow>
          if scheme = [] \<or> netloc = []
          then Inl (HTTPException 400 (CannotFetch ''Invalid URL format''))
          else (case web_load e url of
                  Inl err \<Rightarrow> Inl (HTTPException 400 (CannotFetch err))
                | Inr [] \<Rightarrow> Inl (HTTPException 400 (CannotFetch ''No content found on webpage''))
                | Inr (doc # _) \<Rightarrow>
                    Inr (page_content doc,
                         (case map_of (metadata doc) (py ''title'') of
                            None \<Rightarrow> netloc
                          | Some title \<Rightarrow> title))))"

text \<open>
  Lines 609 to 636 of \<open>upload_document\<close>: the text, the source name and the source type, or
  the \<open>HTTPException\<close> raised on the way. The file is looked at first; the URL only if there
  is no file with a non-empty name. \<open>named_file\<close> is the test \<open>file and file.filename\<close>.
\<close>

definition named_file :: "UploadFile option \<Rightarrow> (UploadFile \<times> str) option" where
  "named_file file =
     (case file of
        None \<Rightarrow> None
      | Some f \<Rightarrow>
          (case filename f of
             None \<Rightarrow> None
           | Some n \<Rightarrow> if n = [] then None else Some (f, n)))"

definition upload_source ::
  "env \<Rightarrow> UploadFile option \<Rightarrow> str option \<Rightarrow> http_error + (str \<times> str \<times> str)" where
  "upload_source e file url =
     (case named_file file of
        Some (f, n) \<Rightarrow>
          if length (content f) = 0 then Inl (HTTPException 400 EmptyFile)
          else (case extract_text_from_file e (content f) n of
                  Inl err \<Rightarrow> Inl err
                | Inr text \<Rightarrow> Inr (text, n, py ''file''))
      | None \<Rightarrow>
          (case url of
             Some u \<Rightarrow>
               if u = [] then Inl (HTTPException 400 ProvideEitherFileOrURL)
               else (case extract_text_from_url e u of
                       Inl err \<Rightarrow> Inl err
                     | Inr (text, title) \<Rightarrow> Inr (text, title, py ''url''))
           | None \<Rightarrow> Inl (HTTPException 400 ProvideEitherFileOrURL)))"

record UploadResponse =
  up_source :: str
  up_source_type :: str
  up_content_length :: nat
  up_chunks :: nat
  up_word_count :: nat

text \<open>
  Lines 676 to 698: the row of \<open>documents\<close>. The arguments of \<open>execute\<close> are evaluated first
  (\<open>text.encode()\<close> may raise); \<open>session.document_id\<close> is assigned between \<open>execute\<close> and
  \<open>commit\<close>, so a failing \<open>commit\<close> leaves the assignment and no row.
\<close>

definition save_document ::
  "env \<Rightarrow> user_info \<Rightarrow> UserSession \<Rightarrow> str \<Rightarrow> str \<Rightarrow> str \<Rightarrow> Document list \<Rightarrow> state
     \<Rightarrow> (http_error + UploadResponse) \<times> state" where
  "save_document e ui session text sname stype splits st =
     (case encoded_len text of
        Inl err \<Rightarrow> (Inl (HTTPException 500 (ProcessingFailed err)), st)
      | Inr file_size \<Rightarrow>
          (case insert_fault e of
             ExecuteFault err \<Rightarrow> (Inl (HTTPException 500 (ProcessingFailed err)), st)
           | CommitFault err \<Rightarrow>
               (Inl (HTTPException 500 (ProcessingFailed err)),
                store_session st ui
                  (session\<lparr>document_id := Some (next_rowid (map d_id (tbl_documents (db st))))\<rparr>))
           | NoFault \<Rightarrow>
               let lastrowid = next_rowid (map d_id (tbl_documents (db st)));
                   row = \<lparr>d_id = lastrowid, d_user_id = ui_user_id ui, d_filename = sname,
                          d_file_size = file_size, d_chunks = length splits,
                          d_word_count = length (split_words text), d_source_type = stype\<rparr>;
                   st' = store_session st ui (session\<lparr>document_id := Some lastrowid\<rparr>)
               in (Inr \<lparr>up_source = sname, up_source_type = stype,
                        up_content_length = length text, up_chunks = length splits,
                        up_word_count = length (split_words text)\<rparr>,
                   st'\<lparr>db := (db st')\<lparr>tbl_documents := tbl_documents (db st') @ [row]\<rparr>\<rparr>)))"

text \<open>Lines 648 to 651: the document made of the extracted text.\<close>

definition new_document :: "str \<Rightarrow> str \<Rightarrow> str \<Rightarrow> Document" where
  "new_document text sname stype =
     \<lparr>page_content = text, metadata = [(py ''source'', sname), (py ''type'', stype)]\<rparr>"

text \<open>
  \<open>upload_document\<close>, after its dependency \<open>verify_token\<close> has returned \<open>user_info\<close>. The state
  returned with an error is the state at the moment the exception was raised.
\<close>

definition upload_document ::
  "env \<Rightarrow> user_info \<Rightarrow> UploadFile option \<Rightarrow> str option \<Rightarrow> state
     \<Rightarrow> (http_error + UploadResponse) \<times> state" where
  "upload_document e ui file url st =
     (case get_user_session (user_sessions st) ui of (session, reg) \<Rightarrow>
      let st0 = st\<lparr>user_sessions := reg\<rparr>
      in case upload_source e file url of
           Inl err \<Rightarrow> (Inl err, st0)
         | Inr (text, sname, stype) \<Rightarrow>
             if text = [] \<or> length text < 50 then (Inl (HTTPException 400 ContentTooShort), st0)
             else
               let doc = new_document text sname stype;
                   session1 = session\<lparr>documents := [doc], source_name := Some sname,
                                      source_type := Some stype\<rparr>;
                   st1 = store_session st0 ui session1
               in case split_documents e [doc] of
                    Inl err \<Rightarrow> (Inl (HTTPException 500 (ProcessingFailed err)), st1)
                  | Inr splits \<Rightarrow>
                      (case from_documents e splits of
                         Inl err \<Rightarrow> (Inl (HTTPException 500 (ProcessingFailed err)), st1)
                       | Inr vs \<Rightarrow>
                           let session2 = session1\<lparr>vectorstore := Some vs,
                                                    retriever := Some (VectorStoreRetriever vs 4)\<rparr>;
                               st2 = store_session st1 ui session2
                           in save_document e ui session2 text sname stype splits st2))"

text \<open>\<open>clear_system\<close>.\<close>

definition clear_system :: "user_info \<Rightarrow> state \<Rightarrow> state" where
  "clear_system ui st =
     (case get_user_session (user_sessions st) ui of (session, reg) \<Rightarrow>
        store_session (st\<lparr>user_sessions := reg\<rparr>) ui (clear session))"

section \<open>Retrieval strategies\<close>

definition format_docs :: "Document list \<Rightarrow> str" where
  "format_docs docs = join [10, 10] (map page_content docs)"

definition get_relevant_documents :: "env \<Rightarrow> retriever \<Rightarrow> str \<Rightarrow> exn + Document list" where
  "get_relevant_documents e r query =
     (case r of VectorStoreRetriever vs k \<Rightarrow> similarity_search e vs k query)"

text \<open>\<open>BasicRAG.build_chain(retriever, llm).invoke(question)\<close>.\<close>

definition BasicRAG_chain :: "env \<Rightarrow> retriever \<Rightarrow> str \<Rightarrow> exn + str" where
  "BasicRAG_chain e r question =
     (case get_relevant_documents e r question of
        Inl err \<Rightarrow> Inl err
      | Inr docs \<Rightarrow> llm_invoke e (BasicPrompt (format_docs docs) question))"

text \<open>
  \<open>MultiQueryRAG\<close>. A Python \<open>dict\<close> keeps its keys in insertion order, and assigning to a
  key that is present replaces the value where the key stands: an association list with
  \<open>dict_setitem\<close>.
\<close>

fun dict_setitem :: "('k \<times> 'v) list \<Rightarrow> 'k \<Rightarrow> 'v \<Rightarrow> ('k \<times> 'v) list" where
  "dict_setitem [] k v = [(k, v)]"
| "dict_setitem ((k', v') # d) k v =
     (if k' = k then (k', v) # d else (k', v') # dict_setitem d k v)"

definition get_unique_docs :: "Document list list \<Rightarrow> Document list" where
  "get_unique_docs doc_lists =
     map snd
       (fold (\<lambda>docs unique. fold (\<lambda>doc u. dict_setitem u (page_content doc) doc) docs unique)
             doc_lists [])"

definition generate_queries :: "env \<Rightarrow> str \<Rightarrow> exn + str list" where
  "generate_queries e question =
     (case llm_invoke e (MultiQueryPrompt question) of
        Inl err \<Rightarrow> Inl err
      | Inr x \<Rightarrow> Inr (map strip (filter (\<lambda>q. strip q \<noteq> []) (split_lines x))))"

text \<open>
  \<open>retrieve_all\<close> returns \<open>all_docs\<close>; the second component is what it passes to
  \<open>logger.warning\<close>, one entry per query whose retrieval raised.
\<close>

fun retrieve_all :: "env \<Rightarrow> retriever \<Rightarrow> str list \<Rightarrow> Document list list \<times> exn list" where
  "retrieve_all e r [] = ([], [])"
| "retrieve_all e r (q # queries) =
     (case retrieve_all e r queries of (all_docs, warnings) \<Rightarrow>
        (case get_relevant_documents e r q of
           Inr docs \<Rightarrow> (docs # all_docs, warnings)
         | Inl err \<Rightarrow> (all_docs, err # warnings)))"

definition MultiQueryRAG_chain :: "env \<Rightarrow> retriever \<Rightarrow> str \<Rightarrow> exn + str" where
  "MultiQueryRAG_chain e r question =
     (case generate_queries e question of
        Inl err \<Rightarrow> Inl err
      | Inr queries \<Rightarrow>
          let doc_lists = fst (retrieve_all e r queries);
              unique_docs = get_unique_docs doc_lists;
              context = format_docs unique_docs
          in llm_invoke e (MultiQueryAnswerPrompt context question))"

definition HyDERAG_chain :: "env \<Rightarrow> retriever \<Rightarrow> str \<Rightarrow> exn + str" where
  "HyDERAG_chain e r question =
     (case llm_invoke e (HydePrompt question) of
        Inl err \<Rightarrow> Inl err
      | Inr hypothetical \<Rightarrow>
          (case get_relevant_documents e r hypothetical of
             Inl err \<Rightarrow> Inl err
           | Inr docs \<Rightarrow> llm_invoke e (HydeAnswerPrompt (format_docs docs) question)))"

section \<open>Asking\<close>

record QuestionRequest =
  question :: str
  rag_type :: str

record AnswerResponse =
  answer :: str
  sources :: "str list"

text \<open>Line 737: \<open>[doc.page_content[:200] + "..." for doc in relevant_docs[:3]]\<close>.\<close>

definition source_previews :: "Document list \<Rightarrow> str list" where
  "source_previews relevant_docs =
     map (\<lambda>doc. take 200 (page_content doc) @ py ''...'') (take 3 relevant_docs)"

text \<open>Lines 726 to 734: the dispatch on the strategy tag.\<close>

definition run_chain :: "env \<Rightarrow> retriever \<Rightarrow> str \<Rightarrow> str \<Rightarrow> exn + str" where
  "run_chain e r rtype q =
     (if rtype = py ''multi_query'' then MultiQueryRAG_chain e r q
      else if rtype = py ''hyde'' then HyDERAG_chain e r q
      else BasicRAG_chain e r q)"

text \<open>
  Lines 739 to 747: the row of \<open>conversations\<close>. The column \<open>document_id\<close> is \<open>NOT NULL\<close>, so
  a session without a document id makes \<open>execute\<close> raise \<open>IntegrityError\<close>.
\<close>

definition save_conversation ::
  "env \<Rightarrow> user_info \<Rightarrow> UserSession \<Rightarrow> str \<Rightarrow> str \<Rightarrow> str \<Rightarrow> database \<Rightarrow> exn + database" where
  "save_conversation e ui session q ans rtype d =
     (case document_id session of
        None \<Rightarrow> Inl ''NOT NULL constraint failed: conversations.document_id''
      | Some did \<Rightarrow>
          (case insert_fault e of
             ExecuteFault err \<Rightarrow> Inl err
           | CommitFault err \<Rightarrow> Inl err
           | NoFault \<Rightarrow>
               Inr (d\<lparr>tbl_conversations := tbl_conversations d @
                        [\<lparr>c_user_id = ui_user_id ui, c_document_id = did, c_question = q,
                          c_answer = ans, c_rag_type = rtype\<rparr>]\<rparr>)))"

text \<open>
  \<open>ask_question\<close>, after its dependency \<open>verify_token\<close> has returned \<open>user_info\<close>. Every
  exception inside the \<open>try\<close> becomes status 500.
\<close>

definition ask_question ::
  "env \<Rightarrow> user_info \<Rightarrow> QuestionRequest \<Rightarrow> state \<Rightarrow> (http_error + AnswerResponse) \<times> state" where
  "ask_question e ui request st =
     (case get_user_session (user_sessions st) ui of (session, reg) \<Rightarrow>
      let st0 = st\<lparr>user_sessions := reg\<rparr>
      in case retriever session of
           None \<Rightarrow> (Inl (HTTPException 400 NoDocumentUploaded), st0)
         | Some r \<Rightarrow>
             let q = strip (question request);
                 rtype = rag_type request
             in case run_chain e r rtype q of
                  Inl err \<Rightarrow> (Inl (HTTPException 500 (QuestionFailed err)), st0)
                | Inr ans \<Rightarrow>
                    (case get_relevant_documents e r q of
                       Inl err \<Rightarrow> (Inl (HTTPException 500 (QuestionFailed err)), st0)
                     | Inr relevant_docs \<Rightarrow>
                         (case save_conversation e ui session q ans rtype (db st0) of
                            Inl err \<Rightarrow> (Inl (HTTPException 500 (QuestionFailed err)), st0)
                          | Inr d' \<Rightarrow>
                              (Inr \<lparr>answer = ans, sources = source_previews relevant_docs\<rparr>,
                               st0\<lparr>db := d'\<rparr>))))"

section \<open>Definitions used to state the properties\<close>

text \<open>
  The merge as the specification words it: go through the chunks in order, keep a chunk
  unless the text of a chunk already kept is exactly its text.
\<close>

fun spec_merge_first_wins :: "Document list \<Rightarrow> Document list \<Rightarrow> Document list" where
  "spec_merge_first_wins kept [] = kept"
| "spec_merge_first_wins kept (d # ds) =
     (if page_content d \<in> page_content ` set kept then spec_merge_first_wins kept ds
      else spec_merge_first_wins (kept @ [d]) ds)"

text \<open>The same on bare keys: the keys seen so far, in the order they were first seen.\<close>

fun first_occurrences :: "'a list \<Rightarrow> 'a list \<Rightarrow> 'a list" where
  "first_occurrences seen [] = seen"
| "first_occurrences seen (x # xs) =
     (if x \<in> set seen then first_occurrences seen xs else first_occurrences (seen @ [x]) xs)"

text \<open>Every value of the dictionary \<open>unique\<close> is stored under its own text.\<close>

definition keyed_by_text :: "(str \<times> Document) list \<Rightarrow> bool" where
  "keyed_by_text d \<longleftrightarrow> list_all (\<lambda>(k, v). page_content v = k) d"

text \<open>
  What the schema and \<open>generate_token\<close> give the table \<open>sessions\<close>: no stored token is
  empty, and the \<open>user_id\<close> of every row is the \<open>id\<close> of a row of \<open>users\<close>
  (\<open>FOREIGN KEY (user_id) REFERENCES users (id)\<close>).
\<close>

definition schema_ok :: "database \<Rightarrow> bool" where
  "schema_ok d \<longleftrightarrow>
     list_all (\<lambda>s. s_token s \<noteq> [] \<and> s_user_id s \<in> set (map u_id (tbl_users d)))
       (tbl_sessions d)"

text \<open>A store with one user and one token that expires at time 100.\<close>

definition example_db :: database where
  "example_db =
     \<lparr>tbl_users = [\<lparr>u_id = 1, u_username = py ''alice'', u_email = py ''a@x.com'',
                     u_password_hash = py ''h''\<rparr>],
      tbl_sessions = [\<lparr>s_user_id = 1, s_token = py ''tok'', s_expires_at = 100\<rparr>],
      tbl_documents = [], tbl_conversations = []\<rparr>"

text \<open>The state a handler works on once \<open>get_user_session\<close> has run.\<close>

definition with_session :: "state \<Rightarrow> user_info \<Rightarrow> state" where
  "with_session st ui = st\<lparr>user_sessions := snd (get_user_session (user_sessions st) ui)\<rparr>"

text \<open>Chunking or indexing of a document raises.\<close>

definition indexing_fails :: "env \<Rightarrow> Document \<Rightarrow> bool" where
  "indexing_fails e doc =
     (case split_documents e [doc] of
        Inl _ \<Rightarrow> True
      | Inr splits \<Rightarrow> (case from_documents e splits of Inl _ \<Rightarrow> True | Inr _ \<Rightarrow> False))"

text \<open>
  A concrete setting for the examples: collaborators that answer, one user with an active
  corpus, a file of 60 characters, a file of 9 characters, and a question with a strategy tag
  the code does not know. The example search fails on queries shorter than three characters;
  the example generator proposes the question, an empty line, \<open>no\<close> and the question again,
  and answers a Multi-Query prompt with the context it was given.
\<close>

definition example_user :: user_info where
  "example_user = \<lparr>ui_user_id = 1, ui_username = py ''alice'', ui_email = py ''a@x.com''\<rparr>"

definition example_env :: env where
  "example_env =
     \<lparr>pdf_extract_text = (\<lambda>b. Inl ''not a PDF''),
      decode_utf8 = (\<lambda>b. Some b),
      urlparse = (\<lambda>u. Inr (py ''https'', py ''example.org'')),
      web_load = (\<lambda>u. Inr [\<lparr>page_content = u, metadata = []\<rparr>]),
      split_documents = (\<lambda>ds. Inr ds),
      from_documents = (\<lambda>ds. Inr (Chroma 2)),
      similarity_search =
        (\<lambda>vs k q. if length q < 3 then Inl ''search failed''
                   else Inr [\<lparr>page_content = q, metadata = []\<rparr>]),
      llm_invoke =
        (\<lambda>p. case p of
                MultiQueryPrompt q \<Rightarrow> Inr (q @ [10, 10] @ py ''no'' @ [10] @ q)
              | MultiQueryAnswerPrompt context q \<Rightarrow> Inr (py ''from: '' @ context)
              | _ \<Rightarrow> Inr (py ''answer'')),
      sha256_hexdigest = (\<lambda>p. p),
      insert_fault = NoFault\<rparr>"

definition failing_index_env :: env where
  "failing_index_env = example_env\<lparr>from_documents := (\<lambda>ds. Inl ''embedding service unavailable'')\<rparr>"

definition example_session :: UserSession where
  "example_session =
     \<lparr>user_id = 1, vectorstore = Some (Chroma 1),
      retriever = Some (VectorStoreRetriever (Chroma 1) 4),
      documents = [\<lparr>page_content = py ''old'', metadata = []\<rparr>],
      source_name = Some (py ''old.txt''), source_type = Some (py ''file''),
      document_id = Some 1\<rparr>"

definition example_state :: state where
  "example_state = \<lparr>user_sessions = [1 \<mapsto> example_session], db = example_db\<rparr>"

definition example_file :: UploadFile where
  "example_file =
     \<lparr>filename = Some (py ''notes.txt''),
      content = py ''Retrieval augmented generation answers from an indexed text.''\<rparr>"

definition short_file :: UploadFile where
  "short_file = \<lparr>filename = Some (py ''short.txt''), content = py ''too short''\<rparr>"

definition example_request :: QuestionRequest where
  "example_request = \<lparr>question = py '' what is rag '', rag_type = py ''fancy''\<rparr>"

section \<open>Multi-Query: the merge of the retrieved chunks\<close>

lemma dict_setitem_keys:
  "map fst (dict_setitem d k v) = (if k \<in> set (map fst d) then map fst d else map fst d @ [k])"
  by (induction d k v rule: dict_setitem.induct) auto

lemma dict_setitem_keyed:
  "keyed_by_text d \<Longrightarrow> keyed_by_text (dict_setitem d (page_content v) v)"
  by (induction d "page_content v" v rule: dict_setitem.induct) (auto simp: keyed_by_text_def)

lemma inner_loop_keys:
  "map fst (fold (\<lambda>doc u. dict_setitem u (page_content doc) doc) docs d)
     = first_occurrences (map fst d) (map page_content docs)"
  by (induction docs arbitrary: d) (auto simp: dict_setitem_keys)

lemma inner_loop_keyed:
  "keyed_by_text d \<Longrightarrow>
   keyed_by_text (fold (\<lambda>doc u. dict_setitem u (page_content doc) doc) docs d)"
  by (induction docs arbitrary: d) (auto simp: dict_setitem_keyed)

lemma first_occurrences_append:
  "first_occurrences seen (xs @ ys) = first_occurrences (first_occurrences seen xs) ys"
  by (induction xs arbitrary: seen) auto

lemma outer_loop_keys:
  "map fst (fold (\<lambda>docs unique. fold (\<lambda>doc u. dict_setitem u (page_content doc) doc) docs unique)
               dls d)
     = first_occurrences (map fst d) (map page_content (concat dls))"
  by (induction dls arbitrary: d) (auto simp: inner_loop_keys first_occurrences_append)

lemma outer_loop_keyed:
  "keyed_by_text d \<Longrightarrow>
   keyed_by_text
     (fold (\<lambda>docs unique. fold (\<lambda>doc u. dict_setitem u (page_content doc) doc) docs unique) dls d)"
  by (induction dls arbitrary: d) (auto simp: inner_loop_keyed)

lemma keyed_values: "keyed_by_text d \<Longrightarrow> map page_content (map snd d) = map fst d"
  by (induction d) (auto simp: keyed_by_text_def)

lemma get_unique_docs_texts:
  "map page_content (get_unique_docs dls) = first_occurrences [] (map page_content (concat dls))"
proof -
  let ?d = "fold (\<lambda>docs unique. fold (\<lambda>doc u. dict_setitem u (page_content doc) doc) docs unique)
              dls []"
  have "keyed_by_text ?d"
    by (rule outer_loop_keyed) (simp add: keyed_by_text_def)
  then have "map page_content (map snd ?d) = map fst ?d"
    by (rule keyed_values)
  also have "\<dots> = first_occurrences [] (map page_content (concat dls))"
    using outer_loop_keys [of dls "[]"] by simp
  finally show ?thesis
    by (simp add: get_unique_docs_def)
qed

lemma spec_merge_texts:
  "map page_content (spec_merge_first_wins kept ds)
     = first_occurrences (map page_content kept) (map page_content ds)"
  by (induction ds arbitrary: kept) auto

lemma first_occurrences_distinct: "distinct seen \<Longrightarrow> distinct (first_occurrences seen xs)"
  by (induction xs arbitrary: seen) auto

lemma first_occurrences_set: "set (first_occurrences seen xs) = set seen \<union> set xs"
  by (induction xs arbitrary: seen) auto

lemma first_occurrences_absorb: "set xs \<subseteq> set seen \<Longrightarrow> first_occurrences seen xs = seen"
  by (induction xs arbitrary: seen) auto

lemma first_occurrences_repeat:
  "first_occurrences [] (xs @ l @ ys @ l @ zs) = first_occurrences [] (xs @ l @ ys @ zs)"
proof -
  let ?seen = "first_occurrences [] (xs @ l @ ys)"
  have "set l \<subseteq> set ?seen"
    by (auto simp: first_occurrences_set)
  then have "first_occurrences ?seen l = ?seen"
    by (rule first_occurrences_absorb)
  then have "first_occurrences ?seen (l @ zs) = first_occurrences ?seen zs"
    by (simp add: first_occurrences_append)
  moreover have "xs @ l @ ys @ l @ zs = (xs @ l @ ys) @ (l @ zs)"
    and "xs @ l @ ys @ zs = (xs @ l @ ys) @ zs"
    by simp_all
  ultimately show ?thesis
    by (simp only: first_occurrences_append)
qed

lemma format_docs_texts:
  "map page_content xs = map page_content ys \<Longrightarrow> format_docs xs = format_docs ys"
  by (simp add: format_docs_def)

lemma dict_setitem_same:
  "inj_on page_content (insert doc (set kept)) \<Longrightarrow>
   dict_setitem (map (\<lambda>d. (page_content d, d)) kept) (page_content doc) doc
     = map (\<lambda>d. (page_content d, d))
         (if page_content doc \<in> page_content ` set kept then kept else kept @ [doc])"
proof (induction kept)
  case Nil
  then show ?case by simp
next
  case (Cons a kept)
  from Cons.prems have inj: "inj_on page_content (insert doc (set kept))"
    by (rule inj_on_subset) auto
  have same: "page_content a = page_content doc \<Longrightarrow> a = doc"
    using inj_onD [OF Cons.prems, of a doc] by simp
  show ?case
    using Cons.IH [OF inj] same by auto
qed

lemma spec_merge_subset: "set (spec_merge_first_wins kept ds) \<subseteq> set kept \<union> set ds"
proof (induction ds arbitrary: kept)
  case Nil
  then show ?case by simp
next
  case (Cons d ds)
  from Cons [of kept] Cons [of "kept @ [d]"] show ?case
    by auto
qed

lemma spec_merge_append:
  "spec_merge_first_wins kept (xs @ ys) = spec_merge_first_wins (spec_merge_first_wins kept xs) ys"
  by (induction xs arbitrary: kept) auto

lemma inner_loop_docs:
  "inj_on page_content (set kept \<union> set ds) \<Longrightarrow>
   fold (\<lambda>doc u. dict_setitem u (page_content doc) doc) ds (map (\<lambda>d. (page_content d, d)) kept)
     = map (\<lambda>d. (page_content d, d)) (spec_merge_first_wins kept ds)"
proof (induction ds arbitrary: kept)
  case Nil
  then show ?case by simp
next
  case (Cons doc ds)
  let ?kept' = "if page_content doc \<in> page_content ` set kept then kept else kept @ [doc]"
  from Cons.prems have "inj_on page_content (insert doc (set kept))"
    by (rule inj_on_subset) auto
  then have step: "dict_setitem (map (\<lambda>d. (page_content d, d)) kept) (page_content doc) doc
      = map (\<lambda>d. (page_content d, d)) ?kept'"
    by (rule dict_setitem_same)
  from Cons.prems have "inj_on page_content (set ?kept' \<union> set ds)"
    by (rule inj_on_subset) auto
  from Cons.IH [OF this] step show ?case
    by simp
qed

lemma outer_loop_docs:
  "inj_on page_content (set kept \<union> set (concat dls)) \<Longrightarrow>
   fold (\<lambda>docs unique. fold (\<lambda>doc u. dict_setitem u (page_content doc) doc) docs unique) dls
        (map (\<lambda>d. (page_content d, d)) kept)
     = map (\<lambda>d. (page_content d, d)) (spec_merge_first_wins kept (concat dls))"
proof (induction dls arbitrary: kept)
  case Nil
  then show ?case by simp
next
  case (Cons docs dls)
  from Cons.prems have "inj_on page_content (set kept \<union> set docs)"
    by (rule inj_on_subset) auto
  then have inner: "fold (\<lambda>doc u. dict_setitem u (page_content doc) doc) docs
        (map (\<lambda>d. (page_content d, d)) kept)
      = map (\<lambda>d. (page_content d, d)) (spec_merge_first_wins kept docs)"
    by (rule inner_loop_docs)
  from Cons.prems spec_merge_subset [of kept docs]
  have "inj_on page_content (set (spec_merge_first_wins kept docs) \<union> set (concat dls))"
    by (elim inj_on_subset) auto
  from Cons.IH [OF this] inner show ?case
    by (simp add: spec_merge_append)
qed

lemma get_unique_docs_objects:
  assumes "inj_on page_content (set (concat dls))"
  shows "get_unique_docs dls = spec_merge_first_wins [] (concat dls)"
proof -
  from assms have "inj_on page_content (set [] \<union> set (concat dls))" by simp
  from outer_loop_docs [OF this] show ?thesis
    by (simp add: get_unique_docs_def comp_def)
qed

text \<open>
  C2. The texts of the list \<open>get_unique_docs\<close> returns are those of the first-wins merge of
  the specification over the flattened result lists, in the same order (each text stands
  where it first occurred among the distinct texts); no text occurs twice; no text is lost;
  the context built from the list is that of the first-wins merge; and a result list that
  is retrieved a second time (a duplicate generated query) changes nothing.
  The dictionary keeps the position of the first chunk with a text and the object of the
  last one. When chunks with the same text do not differ otherwise (the chunks of one corpus
  carry the same metadata), the list returned is the first-wins merge itself.
\<close>

theorem get_unique_docs_first_occurrence:
  "map page_content (get_unique_docs doc_lists)
     = map page_content (spec_merge_first_wins [] (concat doc_lists))
   \<and> distinct (map page_content (get_unique_docs doc_lists))
   \<and> set (map page_content (get_unique_docs doc_lists)) = set (map page_content (concat doc_lists))
   \<and> format_docs (get_unique_docs doc_lists)
       = format_docs (spec_merge_first_wins [] (concat doc_lists))
   \<and> map page_content (get_unique_docs (a @ [l] @ b @ [l] @ c))
       = map page_content (get_unique_docs (a @ [l] @ b @ c))
   \<and> (inj_on page_content (set (concat doc_lists)) \<longrightarrow>
        get_unique_docs doc_lists = spec_merge_first_wins [] (concat doc_lists))"
proof (intro conjI impI)
  show texts: "map page_content (get_unique_docs doc_lists)
     = map page_content (spec_merge_first_wins [] (concat doc_lists))"
    by (simp add: get_unique_docs_texts spec_merge_texts)
  show "distinct (map page_content (get_unique_docs doc_lists))"
    by (simp add: get_unique_docs_texts first_occurrences_distinct)
  show "set (map page_content (get_unique_docs doc_lists)) = set (map page_content (concat doc_lists))"
    by (simp only: get_unique_docs_texts first_occurrences_set) simp
  show "format_docs (get_unique_docs doc_lists)
       = format_docs (spec_merge_first_wins [] (concat doc_lists))"
    using texts by (rule format_docs_texts)
  show "map page_content (get_unique_docs (a @ [l] @ b @ [l] @ c))
       = map page_content (get_unique_docs (a @ [l] @ b @ c))"
    using first_occurrences_repeat
      [of "map page_content (concat a)" "map page_content l" "map page_content (concat b)"
          "map page_content (concat c)"]
    by (simp add: get_unique_docs_texts)
next
  assume "inj_on page_content (set (concat doc_lists))"
  then show "get_unique_docs doc_lists = spec_merge_first_wins [] (concat doc_lists)"
    by (rule get_unique_docs_objects)
qed

theorem get_unique_docs_first_occurrence_witness:
  "inj_on page_content
     (set (concat
        [[\<lparr>page_content = [97], metadata = []\<rparr>, \<lparr>page_content = [98], metadata = []\<rparr>],
         [\<lparr>page_content = [99], metadata = []\<rparr>, \<lparr>page_content = [97], metadata = []\<rparr>]]))
   \<and> get_unique_docs
        [[\<lparr>page_content = [97], metadata = []\<rparr>, \<lparr>page_content = [98], metadata = []\<rparr>],
         [\<lparr>page_content = [99], metadata = []\<rparr>, \<lparr>page_content = [97], metadata = []\<rparr>]]
     = [\<lparr>page_content = [97], metadata = []\<rparr>, \<lparr>page_content = [98], metadata = []\<rparr>,
        \<lparr>page_content = [99], metadata = []\<rparr>]
   \<and> map page_content
       (get_unique_docs
          [[\<lparr>page_content = [97], metadata = []\<rparr>],
           [\<lparr>page_content = [98], metadata = []\<rparr>, \<lparr>page_content = [97], metadata = [([1], [2])]\<rparr>]])
     = [[97], [98]]"
proof -
  have inj: "inj_on page_content
     (set (concat
        [[\<lparr>page_content = [97], metadata = []\<rparr>, \<lparr>page_content = [98], metadata = []\<rparr>],
         [\<lparr>page_content = [99], metadata = []\<rparr>, \<lparr>page_content = [97], metadata = []\<rparr>]]))"
    by (auto simp: inj_on_def)
  from get_unique_docs_first_occurrence
    [of "[[\<lparr>page_content = [97], metadata = []\<rparr>, \<lparr>page_content = [98], metadata = []\<rparr>],
         [\<lparr>page_content = [99], metadata = []\<rparr>, \<lparr>page_content = [97], metadata = []\<rparr>]]"
        "[]" "[]" "[]" "[]"]
    get_unique_docs_first_occurrence
    [of "[[\<lparr>page_content = [97], metadata = []\<rparr>],
           [\<lparr>page_content = [98], metadata = []\<rparr>, \<lparr>page_content = [97], metadata = [([1], [2])]\<rparr>]]"
        "[]" "[]" "[]" "[]"]
    inj
  show ?thesis by simp
qed

section \<open>Credential store: validation and logout\<close>

lemma select_session_user_set:
  "set (select_session_user d t now) =
     {(u, s). s \<in> set (tbl_sessions d) \<and> u \<in> set (tbl_users d) \<and> s_user_id s = u_id u
              \<and> s_token s = t \<and> now < s_expires_at s}"
  by (auto simp: select_session_user_def split: if_splits)

lemma verify_token_status:
  "verify_token d now token = Inl err \<Longrightarrow> status_code err = 401"
  by (auto simp: verify_token_def split: option.splits if_splits list.splits)

lemma verify_token_success:
  assumes "verify_token d now token = Inr ui"
  shows "\<exists>s u. s \<in> set (tbl_sessions d) \<and> Some (s_token s) = token \<and> now < s_expires_at s
            \<and> u \<in> set (tbl_users d) \<and> u_id u = s_user_id s
            \<and> ui = \<lparr>ui_user_id = u_id u, ui_username = u_username u, ui_email = u_email u\<rparr>"
proof -
  from assms obtain t u s rest where t: "token = Some t" "t \<noteq> []"
    and rows: "select_session_user d t now = (u, s) # rest"
    and ui: "ui = \<lparr>ui_user_id = u_id u, ui_username = u_username u, ui_email = u_email u\<rparr>"
    by (auto simp: verify_token_def split: option.splits if_splits list.splits)
  from rows have "(u, s) \<in> set (select_session_user d t now)" by simp
  then have "s \<in> set (tbl_sessions d)" "u \<in> set (tbl_users d)" "s_user_id s = u_id u"
    "s_token s = t" "now < s_expires_at s"
    by (simp_all add: select_session_user_set)
  with t ui show ?thesis by (intro exI [of _ s] exI [of _ u]) simp
qed

lemma verify_token_complete:
  assumes "schema_ok d" "s \<in> set (tbl_sessions d)" "now < s_expires_at s"
  shows "\<exists>ui. verify_token d now (Some (s_token s)) = Inr ui"
proof -
  from assms have ne: "s_token s \<noteq> []" and "s_user_id s \<in> set (map u_id (tbl_users d))"
    by (auto simp: schema_ok_def list_all_iff)
  then obtain u where "u \<in> set (tbl_users d)" "u_id u = s_user_id s" by auto
  with assms have "(u, s) \<in> set (select_session_user d (s_token s) now)"
    by (simp add: select_session_user_set)
  then obtain p rest where "select_session_user d (s_token s) now = p # rest"
    by (cases "select_session_user d (s_token s) now") auto
  with ne show ?thesis
    by (cases p) (simp add: verify_token_def)
qed

text \<open>The operations of the credential store keep \<open>schema_ok\<close>; the others leave both tables alone.\<close>

lemma register_schema_ok:
  "schema_ok d \<Longrightarrow> token \<noteq> [] \<Longrightarrow> schema_ok (snd (register e now token request d))"
  by (auto simp: register_def schema_ok_def list_all_iff Let_def)

lemma login_schema_ok:
  assumes ok: "schema_ok d" and ne: "token \<noteq> []"
  shows "schema_ok (snd (login e now token request d))"
proof -
  let ?found = "filter (\<lambda>u. u_username u = lr_username request
                          \<and> u_password_hash u = hash_password e (lr_password request)) (tbl_users d)"
  show ?thesis
  proof (cases ?found)
    case Nil
    with ok show ?thesis by (simp add: login_def Let_def)
  next
    case (Cons user rest)
    then have "user \<in> set ?found" by simp
    then have mem: "user \<in> set (tbl_users d)" by simp
    show ?thesis
    proof (cases "token \<in> set (map s_token (tbl_sessions d))")
      case True
      with Cons ok show ?thesis by (simp add: login_def Let_def)
    next
      case False
      with Cons have "snd (login e now token request d)
          = d\<lparr>tbl_sessions := tbl_sessions d @
               [\<lparr>s_user_id = u_id user, s_token = token, s_expires_at = now + seven_days\<rparr>]\<rparr>"
        by (simp add: login_def Let_def)
      with ok ne mem show ?thesis by (simp add: schema_ok_def)
    qed
  qed
qed

lemma logout_schema_ok:
  "schema_ok d \<Longrightarrow> schema_ok (snd (logout now token d))"
  by (auto simp: logout_def logout_body_def schema_ok_def list_all_iff split: sum.splits)

text \<open>
  C5. On a store that satisfies \<open>schema_ok\<close>, \<open>verify_token\<close> returns an identity exactly when
  a row of \<open>sessions\<close> carries the presented token and the current time is strictly before
  its expiry. Every other outcome is an \<open>HTTPException\<close> with status 401 (missing, unknown
  and expired tokens alike; a row that has expired is still in the table and is filtered
  out by the query). The identity returned is that of the user row the session row refers
  to. \<open>verify_token\<close> only reads: it is a function of the store and returns no new store.
\<close>

theorem verify_token_iff:
  assumes "schema_ok d"
  shows "((\<exists>ui. verify_token d now token = Inr ui) \<longleftrightarrow>
            (\<exists>s \<in> set (tbl_sessions d). token = Some (s_token s) \<and> now < s_expires_at s))
     \<and> ((\<forall>ui. verify_token d now token \<noteq> Inr ui) \<longrightarrow>
            (\<exists>err. verify_token d now token = Inl err \<and> status_code err = 401))
     \<and> (\<forall>ui. verify_token d now token = Inr ui \<longrightarrow>
            (\<exists>s \<in> set (tbl_sessions d). \<exists>u \<in> set (tbl_users d).
               token = Some (s_token s) \<and> now < s_expires_at s \<and> u_id u = s_user_id s
               \<and> ui = \<lparr>ui_user_id = u_id u, ui_username = u_username u, ui_email = u_email u\<rparr>))"
proof (intro conjI)
  show "(\<exists>ui. verify_token d now token = Inr ui) \<longleftrightarrow>
            (\<exists>s \<in> set (tbl_sessions d). token = Some (s_token s) \<and> now < s_expires_at s)"
    using verify_token_success [of d now token] verify_token_complete [OF assms, of _ now]
    by (metis)
  show "(\<forall>ui. verify_token d now token \<noteq> Inr ui) \<longrightarrow>
            (\<exists>err. verify_token d now token = Inl err \<and> status_code err = 401)"
    using verify_token_status [of d now token]
    by (cases "verify_token d now token") auto
  show "\<forall>ui. verify_token d now token = Inr ui \<longrightarrow>
            (\<exists>s \<in> set (tbl_sessions d). \<exists>u \<in> set (tbl_users d).
               token = Some (s_token s) \<and> now < s_expires_at s \<and> u_id u = s_user_id s
               \<and> ui = \<lparr>ui_user_id = u_id u, ui_username = u_username u, ui_email = u_email u\<rparr>)"
    using verify_token_success [of d now token] by metis
qed


theorem verify_token_iff_witness:
  "schema_ok example_db
   \<and> verify_token example_db 5 (Some (py ''tok''))
       = Inr \<lparr>ui_user_id = 1, ui_username = py ''alice'', ui_email = py ''a@x.com''\<rparr>
   \<and> verify_token example_db 100 (Some (py ''tok'')) = Inl (HTTPException 401 TokenInvalidOrExpired)"
proof -
  have ok: "schema_ok example_db"
    by (simp add: schema_ok_def example_db_def py_def)
  have "5 < s_expires_at \<lparr>s_user_id = 1, s_token = py ''tok'', s_expires_at = 100\<rparr>" by simp
  from verify_token_iff [OF ok, of 5 "Some (py ''tok'')"] verify_token_iff [OF ok, of 100 "Some (py ''tok'')"]
  show ?thesis using ok
    by (auto simp: example_db_def verify_token_def select_session_user_def py_def)
qed


section \<open>Logout\<close>

lemma verify_token_deleted:
  "verify_token (d\<lparr>tbl_sessions := filter (\<lambda>s. Some (s_token s) \<noteq> token) (tbl_sessions d)\<rparr>) now' token
     = Inl (HTTPException 401 (if token = None \<or> token = Some [] then TokenNotProvided else TokenInvalidOrExpired))"
proof (cases token)
  case None
  then show ?thesis by (simp add: verify_token_def)
next
  case (Some t)
  have "set (select_session_user (d\<lparr>tbl_sessions := filter (\<lambda>s. Some (s_token s) \<noteq> Some t) (tbl_sessions d)\<rparr>) t now') = {}"
    by (auto simp: select_session_user_set)
  then have "select_session_user (d\<lparr>tbl_sessions := filter (\<lambda>s. Some (s_token s) \<noteq> Some t) (tbl_sessions d)\<rparr>) t now' = []"
    by simp
  with Some show ?thesis by (simp add: verify_token_def)
qed

lemma verify_token_later:
  assumes "verify_token d now token = Inl err" "now \<le> now'"
  shows "verify_token d now' token = Inl err"
proof (cases token)
  case None
  with assms show ?thesis by (simp add: verify_token_def)
next
  case (Some t)
  show ?thesis
  proof (cases "t = []")
    case True
    with Some assms show ?thesis by (simp add: verify_token_def)
  next
    case False
    with Some assms have "select_session_user d t now = []"
      and err: "err = HTTPException 401 TokenInvalidOrExpired"
      by (auto simp: verify_token_def split: list.splits)
    moreover from assms(2)
    have "set (select_session_user d t now') \<subseteq> set (select_session_user d t now)"
      by (auto simp: select_session_user_set)
    ultimately have "set (select_session_user d t now') = {}"
      by simp
    then have "select_session_user d t now' = []" by simp
    with Some False err show ?thesis by (simp add: verify_token_def)
  qed
qed

text \<open>
  C4, as the code has it. \<open>logout\<close> validates the token first. A token that is missing,
  unknown, already deleted or expired is answered with status 401 and the store is left as
  it was. A valid token is answered with success and every row carrying it is deleted.
  A second call with the same token, at the same or a later time, leaves the store as the
  first call left it and is answered with status 401.
\<close>

theorem logout_validates_first:
  "(\<forall>err. verify_token d now token = Inl err \<longrightarrow>
       logout now token d = (Inl err, d) \<and> status_code err = 401)
   \<and> (\<forall>ui. verify_token d now token = Inr ui \<longrightarrow>
       logout now token d =
         (Inr LogoutSuccessful,
          d\<lparr>tbl_sessions := filter (\<lambda>s. Some (s_token s) \<noteq> token) (tbl_sessions d)\<rparr>)
       \<and> (\<forall>s \<in> set (tbl_sessions (snd (logout now token d))). Some (s_token s) \<noteq> token))
   \<and> (now \<le> now' \<longrightarrow>
       (\<exists>err. logout now' token (snd (logout now token d)) = (Inl err, snd (logout now token d))
              \<and> status_code err = 401))"
proof (intro conjI allI impI)
  fix err assume "verify_token d now token = Inl err"
  then show "logout now token d = (Inl err, d)" by (simp add: logout_def)
next
  fix err assume "verify_token d now token = Inl err"
  then show "status_code err = 401" by (rule verify_token_status)
next
  fix ui assume v: "verify_token d now token = Inr ui"
  then show "logout now token d =
         (Inr LogoutSuccessful,
          d\<lparr>tbl_sessions := filter (\<lambda>s. Some (s_token s) \<noteq> token) (tbl_sessions d)\<rparr>)"
    by (simp add: logout_def logout_body_def)
  then show "\<forall>s \<in> set (tbl_sessions (snd (logout now token d))). Some (s_token s) \<noteq> token"
    by simp
next
  assume le: "now \<le> now'"
  show "\<exists>err. logout now' token (snd (logout now token d)) = (Inl err, snd (logout now token d))
              \<and> status_code err = 401"
  proof (cases "verify_token d now token")
    case (Inl err)
    then have "verify_token d now' token = Inl err" using le by (rule verify_token_later)
    with Inl show ?thesis
      using verify_token_status [OF Inl] by (simp add: logout_def)
  next
    case (Inr ui)
    then show ?thesis
      using verify_token_deleted [where d = d and token = token and now' = now']
      by (simp add: logout_def logout_body_def)
  qed
qed

theorem logout_validates_first_witness:
  "logout 5 (Some (py ''tok'')) example_db = (Inr LogoutSuccessful, example_db\<lparr>tbl_sessions := []\<rparr>)
   \<and> logout 6 (Some (py ''tok'')) (example_db\<lparr>tbl_sessions := []\<rparr>)
        = (Inl (HTTPException 401 TokenInvalidOrExpired), example_db\<lparr>tbl_sessions := []\<rparr>)"
proof -
  have v: "verify_token example_db 5 (Some (py ''tok''))
     = Inr \<lparr>ui_user_id = 1, ui_username = py ''alice'', ui_email = py ''a@x.com''\<rparr>"
    by (simp add: verify_token_def select_session_user_def example_db_def py_def)
  have f: "filter (\<lambda>s. Some (s_token s) \<noteq> Some (py ''tok'')) (tbl_sessions example_db) = []"
    by (simp add: example_db_def)
  have le: "(5::nat) \<le> 6" by simp
  from logout_validates_first [of example_db 5 "Some (py ''tok'')" 6] v f le
  show ?thesis
    by (auto simp: logout_def logout_body_def verify_token_def select_session_user_def
        example_db_def py_def)
qed

text \<open>
  C4, as the claim has it, fails: the first logout with a valid token succeeds and the second
  is an error; so is a logout without a token, and one with an expired token.
\<close>

theorem logout_twice_counterexample:
  "fst (logout 5 (Some (py ''tok'')) example_db) = Inr LogoutSuccessful
   \<and> fst (logout 6 (Some (py ''tok'')) (snd (logout 5 (Some (py ''tok'')) example_db)))
       = Inl (HTTPException 401 TokenInvalidOrExpired)
   \<and> fst (logout 5 None example_db) = Inl (HTTPException 401 TokenNotProvided)
   \<and> fst (logout 100 (Some (py ''tok'')) example_db) = Inl (HTTPException 401 TokenInvalidOrExpired)"
  by (simp add: logout_def logout_body_def verify_token_def select_session_user_def example_db_def py_def)


section \<open>The session a handler sees\<close>

lemma session_of_with_session [simp]: "session_of (with_session st ui) ui = session_of st ui"
  by (simp add: session_of_def with_session_def get_user_session_def split: option.splits)

lemma db_with_session [simp]: "db (with_session st ui) = db st"
  by (simp add: with_session_def)

lemma others_with_session [simp]:
  "uid \<noteq> ui_user_id ui \<Longrightarrow> user_sessions (with_session st ui) uid = user_sessions st uid"
  by (simp add: with_session_def get_user_session_def split: option.splits)

lemma with_session_present:
  "user_sessions st (ui_user_id ui) \<noteq> None \<Longrightarrow> with_session st ui = st"
  by (auto simp: with_session_def get_user_session_def split: option.splits)

lemma session_of_store_session [simp]: "session_of (store_session st ui s) ui = s"
  by (simp add: session_of_def store_session_def get_user_session_def)

lemma db_store_session [simp]: "db (store_session st ui s) = db st"
  by (simp add: store_session_def)

lemma others_store_session [simp]:
  "uid \<noteq> ui_user_id ui \<Longrightarrow> user_sessions (store_session st ui s) uid = user_sessions st uid"
  by (simp add: store_session_def)

lemma upload_document_unfold:
  "upload_document e ui file url st =
     (case upload_source e file url of
        Inl err \<Rightarrow> (Inl err, with_session st ui)
      | Inr (text, sname, stype) \<Rightarrow>
          if length text < 50 then (Inl (HTTPException 400 ContentTooShort), with_session st ui)
          else
            let session1 = (session_of st ui)\<lparr>documents := [new_document text sname stype],
                              source_name := Some sname, source_type := Some stype\<rparr>;
                st1 = store_session (with_session st ui) ui session1
            in case split_documents e [new_document text sname stype] of
                 Inl err \<Rightarrow> (Inl (HTTPException 500 (ProcessingFailed err)), st1)
               | Inr splits \<Rightarrow>
                   (case from_documents e splits of
                      Inl err \<Rightarrow> (Inl (HTTPException 500 (ProcessingFailed err)), st1)
                    | Inr vs \<Rightarrow>
                        let session2 = session1\<lparr>vectorstore := Some vs,
                                                 retriever := Some (VectorStoreRetriever vs 4)\<rparr>
                        in save_document e ui session2 text sname stype splits
                             (store_session st1 ui session2)))"
proof -
  have short: "(t = [] \<or> length t < 50) = (length t < 50)" for t :: str
    by auto
  show ?thesis
    unfolding upload_document_def with_session_def session_of_def new_document_def short
    by (simp add: Let_def split: prod.splits sum.splits)
qed

lemma upload_source_status:
  "upload_source e file url = Inl err \<Longrightarrow> status_code err = 400"
  by (auto simp: upload_source_def extract_text_from_file_def extract_text_from_url_def
      split: option.splits if_splits sum.splits prod.splits list.splits)

lemma save_document_failure:
  assumes "save_document e ui s text sname stype splits st = (Inl err, st')"
  shows "status_code err = 500 \<and> db st' = db st
       \<and> (\<forall>uid. uid \<noteq> ui_user_id ui \<longrightarrow> user_sessions st' uid = user_sessions st uid)"
  using assms
  by (auto simp: save_document_def Let_def split: sum.splits db_fault.splits)

lemma session_of_db_update [simp]: "session_of (st\<lparr>db := d\<rparr>) ui = session_of st ui"
  by (simp add: session_of_def)

lemmas upload_eval =
  upload_document_def new_document_def upload_source_def named_file_def extract_text_from_file_def
  lower_endswith_pdf_def save_document_def encoded_len_def split_words_def isspace_def
  next_rowid_def store_session_def session_of_def get_user_session_def
  example_user_def example_env_def failing_index_env_def example_session_def example_state_def
  example_file_def short_file_def example_db_def py_def Let_def

section \<open>Ingestion: the length check\<close>

text \<open>
  C7. When the text extracted from the file or the URL has fewer than 50 characters,
  \<open>upload_document\<close> raises status 400 with the detail "Content too short", and nothing of
  the user's session has changed: the session the next request finds is the one this
  request found (the empty one if the user had none), the store is as it was, and so are
  the sessions of all other users.
\<close>

theorem short_content_rejected:
  assumes "upload_source e file url = Inr (body, sname, stype)" and "length body < 50"
  shows "fst (upload_document e ui file url st) = Inl (HTTPException 400 ContentTooShort)
       \<and> session_of (snd (upload_document e ui file url st)) ui = session_of st ui
       \<and> db (snd (upload_document e ui file url st)) = db st
       \<and> (\<forall>uid. uid \<noteq> ui_user_id ui \<longrightarrow>
             user_sessions (snd (upload_document e ui file url st)) uid = user_sessions st uid)
       \<and> (user_sessions st (ui_user_id ui) \<noteq> None \<longrightarrow>
             snd (upload_document e ui file url st) = st)"
proof -
  from assms have "upload_document e ui file url st
      = (Inl (HTTPException 400 ContentTooShort), with_session st ui)"
    by (simp add: upload_document_unfold)
  then show ?thesis
    by (simp add: with_session_present)
qed

theorem short_content_rejected_witness:
  "upload_source example_env (Some short_file) None
     = Inr (py ''too short'', py ''short.txt'', py ''file'')
   \<and> fst (upload_document example_env example_user (Some short_file) None example_state)
       = Inl (HTTPException 400 ContentTooShort)
   \<and> session_of (snd (upload_document example_env example_user (Some short_file) None
         example_state)) example_user = example_session"
proof -
  have src: "upload_source example_env (Some short_file) None
     = Inr (py ''too short'', py ''short.txt'', py ''file'')"
    by (simp add: upload_eval)
  have len: "length (py ''too short'') < 50"
    by (simp add: py_def)
  have "session_of example_state example_user = example_session"
    by (simp add: session_of_def get_user_session_def example_state_def example_user_def)
  with short_content_rejected [OF src len, of example_user example_state] src
  show ?thesis by simp
qed

section \<open>Ingestion: the two kinds of input\<close>

text \<open>
  C3, as the code has it. An upload with neither a named file nor a non-empty URL raises
  status 400 with the detail "Provide either file or URL"; an upload that succeeds had at
  least one of the two; and when a named file is present the URL is not looked at, so an
  upload with both is the upload of the file alone.
\<close>

theorem upload_input_kinds:
  "(named_file file = None \<and> (url = None \<or> url = Some []) \<longrightarrow>
      fst (upload_document e ui file url st) = Inl (HTTPException 400 ProvideEitherFileOrURL))
   \<and> ((\<exists>r. fst (upload_document e ui file url st) = Inr r) \<longrightarrow>
        named_file file \<noteq> None \<or> (\<exists>u. url = Some u \<and> u \<noteq> []))
   \<and> (named_file file \<noteq> None \<longrightarrow>
        upload_document e ui file url st = upload_document e ui file None st)"
proof (intro conjI impI)
  assume "named_file file = None \<and> (url = None \<or> url = Some [])"
  then have "upload_source e file url = Inl (HTTPException 400 ProvideEitherFileOrURL)"
    by (auto simp: upload_source_def split: option.splits)
  then show "fst (upload_document e ui file url st) = Inl (HTTPException 400 ProvideEitherFileOrURL)"
    by (simp add: upload_document_unfold)
next
  assume "\<exists>r. fst (upload_document e ui file url st) = Inr r"
  then obtain r where r: "fst (upload_document e ui file url st) = Inr r" ..
  show "named_file file \<noteq> None \<or> (\<exists>u. url = Some u \<and> u \<noteq> [])"
  proof (rule ccontr)
    assume "\<not> (named_file file \<noteq> None \<or> (\<exists>u. url = Some u \<and> u \<noteq> []))"
    then have "upload_source e file url = Inl (HTTPException 400 ProvideEitherFileOrURL)"
      by (cases url) (auto simp: upload_source_def split: option.splits)
    with r show False by (simp add: upload_document_unfold)
  qed
next
  assume "named_file file \<noteq> None"
  then have "upload_source e file url = upload_source e file None"
    by (auto simp: upload_source_def split: option.splits)
  then show "upload_document e ui file url st = upload_document e ui file None st"
    by (simp add: upload_document_unfold)
qed

theorem upload_input_kinds_witness:
  "fst (upload_document example_env example_user None None example_state)
     = Inl (HTTPException 400 ProvideEitherFileOrURL)
   \<and> upload_document example_env example_user (Some example_file)
        (Some (py ''https://example.org/'')) example_state
     = upload_document example_env example_user (Some example_file) None example_state"
proof -
  have "named_file None = None" "named_file (Some example_file) \<noteq> None"
    by (simp_all add: named_file_def example_file_def py_def)
  with upload_input_kinds [of None None example_env example_user example_state]
       upload_input_kinds [of "Some example_file" "Some (py ''https://example.org/'')"
         example_env example_user example_state]
  show ?thesis by simp
qed

text \<open>
  C3, as the claim has it, fails: an upload with a file and a URL is not rejected; it
  succeeds on the file.
\<close>

theorem upload_both_counterexample:
  "fst (upload_document example_env example_user (Some example_file)
          (Some (py ''https://example.org/'')) example_state)
     = Inr \<lparr>up_source = py ''notes.txt'', up_source_type = py ''file'',
            up_content_length = 60, up_chunks = 1, up_word_count = 8\<rparr>"
  by (simp add: upload_eval)

section \<open>Ingestion: failures and the session\<close>

lemma upload_document_failure_cases:
  assumes "upload_document e ui file url st = (Inl err, st')"
  obtains
    (source) "upload_source e file url = Inl err" "st' = with_session st ui"
  | (short) body sname stype where "upload_source e file url = Inr (body, sname, stype)"
      "length body < 50" "err = HTTPException 400 ContentTooShort" "st' = with_session st ui"
  | (index) body sname stype where "upload_source e file url = Inr (body, sname, stype)"
      "50 \<le> length body" "indexing_fails e (new_document body sname stype)"
      "status_code err = 500"
      "st' = store_session (with_session st ui) ui
               ((session_of st ui)\<lparr>documents := [new_document body sname stype],
                   source_name := Some sname, source_type := Some stype\<rparr>)"
  | (save) body sname stype splits s2 where "upload_source e file url = Inr (body, sname, stype)"
      "50 \<le> length body" "\<not> indexing_fails e (new_document body sname stype)"
      "save_document e ui s2 body sname stype splits
         (store_session (store_session (with_session st ui) ui
               ((session_of st ui)\<lparr>documents := [new_document body sname stype],
                   source_name := Some sname, source_type := Some stype\<rparr>)) ui s2) = (Inl err, st')"
proof (cases "upload_source e file url")
  case (Inl a)
  with assms source show ?thesis by (simp add: upload_document_unfold)
next
  case (Inr triple)
  obtain body sname stype where triple: "triple = (body, sname, stype)"
    by (cases triple) auto
  note src = Inr [unfolded triple]
  show ?thesis
  proof (cases "length body < 50")
    case True
    with assms src short show ?thesis by (simp add: upload_document_unfold)
  next
    case long: False
    show ?thesis
    proof (cases "split_documents e [new_document body sname stype]")
      case (Inl a)
      with assms src long show ?thesis
        by (intro index [of body sname stype])
          (auto simp: upload_document_unfold indexing_fails_def Let_def)
    next
      case splits: (Inr splits)
      show ?thesis
      proof (cases "from_documents e splits")
        case (Inl a)
        with assms src long splits show ?thesis
          by (intro index [of body sname stype])
            (auto simp: upload_document_unfold indexing_fails_def Let_def)
      next
        case (Inr vs)
        with assms src long splits show ?thesis
          by (intro save [of body sname stype])
            (auto simp: upload_document_unfold indexing_fails_def Let_def)
      qed
    qed
  qed
qed

text \<open>
  C1, as the code has it. A failed upload never adds a row to the store and never touches
  another user's session. A failure with status 400 (the input check, the extraction, the
  length check) leaves the user's session exactly as it was. A failure at chunking or
  indexing leaves the index handle, the retriever and the document id as they were.
\<close>

theorem upload_failure_frame:
  assumes "upload_document e ui file url st = (Inl err, st')"
  shows "db st' = db st
     \<and> (\<forall>uid. uid \<noteq> ui_user_id ui \<longrightarrow> user_sessions st' uid = user_sessions st uid)
     \<and> (status_code err = 400 \<longrightarrow> session_of st' ui = session_of st ui)
     \<and> (\<forall>body sname stype.
          upload_source e file url = Inr (body, sname, stype) \<and> 50 \<le> length body
          \<and> indexing_fails e (new_document body sname stype) \<longrightarrow>
            vectorstore (session_of st' ui) = vectorstore (session_of st ui)
            \<and> retriever (session_of st' ui) = retriever (session_of st ui)
            \<and> document_id (session_of st' ui) = document_id (session_of st ui))"
  using assms
proof (cases rule: upload_document_failure_cases)
  case source
  then show ?thesis by simp
next
  case (short body sname stype)
  then show ?thesis by simp
next
  case (index body sname stype)
  then show ?thesis by simp
next
  case (save body sname stype splits s2)
  from save_document_failure [OF save(4)] save(1-3) show ?thesis
    by simp
qed

theorem upload_failure_frame_witness:
  "db (snd (upload_document failing_index_env example_user (Some example_file) None
         example_state)) = example_db
   \<and> vectorstore (session_of (snd (upload_document failing_index_env example_user
         (Some example_file) None example_state)) example_user) = Some (Chroma 1)
   \<and> document_id (session_of (snd (upload_document failing_index_env example_user
         (Some example_file) None example_state)) example_user) = Some 1"
proof -
  let ?st' = "snd (upload_document failing_index_env example_user (Some example_file) None
                example_state)"
  let ?body = "py ''Retrieval augmented generation answers from an indexed text.''"
  have run: "upload_document failing_index_env example_user (Some example_file) None example_state
      = (Inl (HTTPException 500 (ProcessingFailed ''embedding service unavailable'')), ?st')"
    by (simp add: prod_eq_iff upload_eval)
  have src: "upload_source failing_index_env (Some example_file) None
      = Inr (?body, py ''notes.txt'', py ''file'')"
    by (simp add: upload_eval)
  have len: "50 \<le> length ?body"
    by (simp add: py_def)
  have idx: "indexing_fails failing_index_env (new_document ?body (py ''notes.txt'') (py ''file''))"
    by (simp add: indexing_fails_def failing_index_env_def example_env_def)
  have before: "session_of example_state example_user = example_session"
    "db example_state = example_db"
    by (simp_all add: session_of_def get_user_session_def example_state_def example_user_def)
  from upload_failure_frame [OF run] src len idx
  have "db ?st' = db example_state
      \<and> vectorstore (session_of ?st' example_user) = vectorstore (session_of example_state example_user)
      \<and> document_id (session_of ?st' example_user) = document_id (session_of example_state example_user)"
    by blast
  then show ?thesis
    by (simp add: before example_session_def)
qed

text \<open>
  C1, as the claim has it, fails: when indexing raises, the session already names the new
  source while its index handle is still that of the old corpus.
\<close>

theorem upload_partial_counterexample:
  "fst (upload_document failing_index_env example_user (Some example_file) None example_state)
     = Inl (HTTPException 500 (ProcessingFailed ''embedding service unavailable''))
   \<and> source_name (session_of example_state example_user) = Some (py ''old.txt'')
   \<and> source_name (session_of (snd (upload_document failing_index_env example_user
         (Some example_file) None example_state)) example_user) = Some (py ''notes.txt'')
   \<and> vectorstore (session_of (snd (upload_document failing_index_env example_user
         (Some example_file) None example_state)) example_user) = Some (Chroma 1)"
  by (simp add: upload_eval)

section \<open>Multi-Query: retrieval per generated query\<close>

lemma retrieve_all_fst:
  "fst (retrieve_all e r queries)
     = concat (map (\<lambda>q. case get_relevant_documents e r q of
                            Inr docs \<Rightarrow> [docs] | Inl err \<Rightarrow> []) queries)"
  by (induction queries) (auto split: prod.splits sum.splits)

lemma retrieve_all_snd:
  "snd (retrieve_all e r queries)
     = concat (map (\<lambda>q. case get_relevant_documents e r q of
                            Inr docs \<Rightarrow> [] | Inl err \<Rightarrow> [err]) queries)"
  by (induction queries) (auto split: prod.splits sum.splits)

lemma retrieve_all_failed:
  "\<forall>q \<in> set queries. \<exists>err. get_relevant_documents e r q = Inl err \<Longrightarrow>
   fst (retrieve_all e r queries) = []"
  by (induction queries) (auto split: prod.splits sum.splits)

lemma retrieved_docs_set:
  "set (concat (concat (map (\<lambda>q. case get_relevant_documents e r q of
                                     Inr docs \<Rightarrow> [docs] | Inl err \<Rightarrow> []) queries)))
     = {d. \<exists>q \<in> set queries. \<exists>docs. get_relevant_documents e r q = Inr docs \<and> d \<in> set docs}"
  by (induction queries) (auto split: sum.splits)

lemma get_unique_docs_Nil: "get_unique_docs [] = []"
  by (simp add: get_unique_docs_def)

lemma format_docs_Nil: "format_docs [] = []"
  by (simp add: format_docs_def)

text \<open>
  C8. \<open>retrieve_all\<close> always returns: its result lists are those of the queries whose
  retrieval succeeded, in the order of the queries, and it logs one warning per query
  whose retrieval raised. What one query contributes does not depend on the queries around
  it. The texts of the merged list are exactly the texts retrieved by the queries that
  succeeded. The chain itself never fails at the retrieval step: once the queries are
  generated, its result is the answer generated from the context of the merged chunks of
  the queries that succeeded, whichever of the retrievals raised. When no query is generated
  or every retrieval raises, the merged list is empty and the chain goes on to generate the
  answer from an empty context.
\<close>

theorem retrieve_all_skips_failures:
  "fst (retrieve_all e r queries)
     = concat (map (\<lambda>q. case get_relevant_documents e r q of
                            Inr docs \<Rightarrow> [docs] | Inl err \<Rightarrow> []) queries)
   \<and> snd (retrieve_all e r queries)
     = concat (map (\<lambda>q. case get_relevant_documents e r q of
                            Inr docs \<Rightarrow> [] | Inl err \<Rightarrow> [err]) queries)
   \<and> fst (retrieve_all e r (before @ q # after))
     = fst (retrieve_all e r before)
       @ (case get_relevant_documents e r q of Inr docs \<Rightarrow> [docs] | Inl err \<Rightarrow> [])
       @ fst (retrieve_all e r after)
   \<and> set (map page_content (get_unique_docs (fst (retrieve_all e r queries))))
     = {t. \<exists>q \<in> set queries. \<exists>docs. get_relevant_documents e r q = Inr docs
             \<and> t \<in> page_content ` set docs}
   \<and> ((\<forall>q \<in> set queries. \<exists>err. get_relevant_documents e r q = Inl err) \<longrightarrow>
         get_unique_docs (fst (retrieve_all e r queries)) = [])
   \<and> (generate_queries e original = Inr queries
        \<and> (\<forall>q \<in> set queries. \<exists>err. get_relevant_documents e r q = Inl err) \<longrightarrow>
         MultiQueryRAG_chain e r original = llm_invoke e (MultiQueryAnswerPrompt [] original))
   \<and> (generate_queries e original = Inr queries \<longrightarrow>
         MultiQueryRAG_chain e r original
           = llm_invoke e
               (MultiQueryAnswerPrompt
                  (format_docs
                     (get_unique_docs
                        (concat (map (\<lambda>q. case get_relevant_documents e r q of
                                              Inr docs \<Rightarrow> [docs] | Inl err \<Rightarrow> []) queries))))
                  original))"
proof (intro conjI impI)
  show "fst (retrieve_all e r queries)
     = concat (map (\<lambda>q. case get_relevant_documents e r q of
                            Inr docs \<Rightarrow> [docs] | Inl err \<Rightarrow> []) queries)"
    by (rule retrieve_all_fst)
  show "snd (retrieve_all e r queries)
     = concat (map (\<lambda>q. case get_relevant_documents e r q of
                            Inr docs \<Rightarrow> [] | Inl err \<Rightarrow> [err]) queries)"
    by (rule retrieve_all_snd)
  show "fst (retrieve_all e r (before @ q # after))
     = fst (retrieve_all e r before)
       @ (case get_relevant_documents e r q of Inr docs \<Rightarrow> [docs] | Inl err \<Rightarrow> [])
       @ fst (retrieve_all e r after)"
    by (simp add: retrieve_all_fst)
  show "set (map page_content (get_unique_docs (fst (retrieve_all e r queries))))
     = {t. \<exists>q \<in> set queries. \<exists>docs. get_relevant_documents e r q = Inr docs
             \<and> t \<in> page_content ` set docs}"
    unfolding get_unique_docs_texts first_occurrences_set retrieve_all_fst
    by (simp only: set_map retrieved_docs_set) auto
next
  assume "\<forall>q \<in> set queries. \<exists>err. get_relevant_documents e r q = Inl err"
  then show "get_unique_docs (fst (retrieve_all e r queries)) = []"
    by (simp add: retrieve_all_failed get_unique_docs_Nil)
next
  assume "generate_queries e original = Inr queries
        \<and> (\<forall>q \<in> set queries. \<exists>err. get_relevant_documents e r q = Inl err)"
  then show "MultiQueryRAG_chain e r original = llm_invoke e (MultiQueryAnswerPrompt [] original)"
    by (simp add: MultiQueryRAG_chain_def retrieve_all_failed get_unique_docs_Nil format_docs_Nil)
next
  assume "generate_queries e original = Inr queries"
  then show "MultiQueryRAG_chain e r original
           = llm_invoke e
               (MultiQueryAnswerPrompt
                  (format_docs
                     (get_unique_docs
                        (concat (map (\<lambda>q. case get_relevant_documents e r q of
                                              Inr docs \<Rightarrow> [docs] | Inl err \<Rightarrow> []) queries))))
                  original)"
    by (simp add: MultiQueryRAG_chain_def retrieve_all_fst)
qed

lemmas ask_eval =
  ask_question_def run_chain_def BasicRAG_chain_def MultiQueryRAG_chain_def HyDERAG_chain_def
  get_relevant_documents_def generate_queries_def strip_def split_lines_def format_docs_def
  get_unique_docs_def source_previews_def save_conversation_def isspace_def
  session_of_def get_user_session_def
  example_user_def example_env_def example_session_def example_state_def example_db_def
  py_def Let_def

theorem retrieve_all_skips_failures_witness:
  "retrieve_all example_env (VectorStoreRetriever (Chroma 1) 4) [py ''what is rag'', py ''no'']
     = ([[\<lparr>page_content = py ''what is rag'', metadata = []\<rparr>]], [''search failed''])
   \<and> get_unique_docs (fst (retrieve_all example_env (VectorStoreRetriever (Chroma 1) 4)
         [py ''hi'', py ''no'', py ''hi''])) = []
   \<and> MultiQueryRAG_chain example_env (VectorStoreRetriever (Chroma 1) 4) (py ''hi'')
       = Inr (py ''from: '')
   \<and> get_relevant_documents example_env (VectorStoreRetriever (Chroma 1) 4) (py ''no'')
       = Inl ''search failed''
   \<and> MultiQueryRAG_chain example_env (VectorStoreRetriever (Chroma 1) 4) (py ''what is rag'')
       = Inr (py ''from: what is rag'')"
proof -
  let ?r = "VectorStoreRetriever (Chroma 1) 4"
  have gen: "generate_queries example_env (py ''hi'') = Inr [py ''hi'', py ''no'', py ''hi'']"
    by (simp add: ask_eval)
  have fails: "\<forall>q \<in> set [py ''hi'', py ''no'', py ''hi''].
                 \<exists>err. get_relevant_documents example_env ?r q = Inl err"
    by (simp add: ask_eval)
  have gen': "generate_queries example_env (py ''what is rag'')
      = Inr [py ''what is rag'', py ''no'', py ''what is rag'']"
    by (simp add: ask_eval)
  have merged: "format_docs
      (get_unique_docs
         (concat (map (\<lambda>q. case get_relevant_documents example_env ?r q of
                               Inr docs \<Rightarrow> [docs] | Inl err \<Rightarrow> [])
                      [py ''what is rag'', py ''no'', py ''what is rag''])))
      = py ''what is rag''"
    by (simp add: ask_eval)
  have answer: "llm_invoke example_env (MultiQueryAnswerPrompt ctx original)
      = Inr (py ''from: '' @ ctx)" for ctx original
    by (simp add: example_env_def)
  have first: "retrieve_all example_env ?r [py ''what is rag'', py ''no'']
     = ([[\<lparr>page_content = py ''what is rag'', metadata = []\<rparr>]], [''search failed''])
   \<and> get_unique_docs (fst (retrieve_all example_env ?r [py ''hi'', py ''no'', py ''hi''])) = []
   \<and> MultiQueryRAG_chain example_env ?r (py ''hi'') = Inr (py ''from: '')
   \<and> get_relevant_documents example_env ?r (py ''no'') = Inl ''search failed''"
    using retrieve_all_skips_failures
         [of example_env ?r "[py ''what is rag'', py ''no'']" "[]" "py ''hi''" "[]" "py ''hi''"]
       retrieve_all_skips_failures
         [of example_env ?r "[py ''hi'', py ''no'', py ''hi'']" "[]" "py ''hi''" "[]" "py ''hi''"]
       gen fails
    by (simp add: prod_eq_iff ask_eval)
  from retrieve_all_skips_failures
         [of example_env ?r "[py ''what is rag'', py ''no'', py ''what is rag'']" "[]" "py ''hi''"
             "[]" "py ''what is rag''"]
       gen'
  have "MultiQueryRAG_chain example_env ?r (py ''what is rag'')
      = llm_invoke example_env
          (MultiQueryAnswerPrompt
             (format_docs
                (get_unique_docs
                   (concat (map (\<lambda>q. case get_relevant_documents example_env ?r q of
                                         Inr docs \<Rightarrow> [docs] | Inl err \<Rightarrow> [])
                                [py ''what is rag'', py ''no'', py ''what is rag'']))))
             (py ''what is rag''))"
    by blast
  then have "MultiQueryRAG_chain example_env ?r (py ''what is rag'')
      = Inr (py ''from: what is rag'')"
    by (simp only: merged answer) (simp add: py_def)
  with first show ?thesis
    by (simp only: simp_thms)
qed

section \<open>Asking\<close>

lemma ask_question_unfold:
  "ask_question e ui request st =
     (case retriever (session_of st ui) of
        None \<Rightarrow> (Inl (HTTPException 400 NoDocumentUploaded), with_session st ui)
      | Some r \<Rightarrow>
          (case run_chain e r (rag_type request) (strip (question request)) of
             Inl err \<Rightarrow> (Inl (HTTPException 500 (QuestionFailed err)), with_session st ui)
           | Inr ans \<Rightarrow>
               (case get_relevant_documents e r (strip (question request)) of
                  Inl err \<Rightarrow> (Inl (HTTPException 500 (QuestionFailed err)), with_session st ui)
                | Inr relevant_docs \<Rightarrow>
                    (case save_conversation e ui (session_of st ui) (strip (question request)) ans
                            (rag_type request) (db st) of
                       Inl err \<Rightarrow> (Inl (HTTPException 500 (QuestionFailed err)), with_session st ui)
                     | Inr d' \<Rightarrow>
                         (Inr \<lparr>answer = ans, sources = source_previews relevant_docs\<rparr>,
                          (with_session st ui)\<lparr>db := d'\<rparr>)))))"
  unfolding ask_question_def with_session_def session_of_def
  by (simp add: Let_def split: prod.splits option.splits sum.splits)

lemma save_conversation_appends:
  assumes "save_conversation e ui s q ans rtype d = Inr d'"
  shows "\<exists>did. document_id s = Some did
           \<and> d' = d\<lparr>tbl_conversations := tbl_conversations d @
                  [\<lparr>c_user_id = ui_user_id ui, c_document_id = did, c_question = q,
                    c_answer = ans, c_rag_type = rtype\<rparr>]\<rparr>"
  using assms
  by (auto simp: save_conversation_def split: option.splits db_fault.splits)

lemma ask_question_cases:
  obtains
    (failure) err where "ask_question e ui request st = (Inl err, with_session st ui)"
  | (success) r ans relevant_docs did where
      "retriever (session_of st ui) = Some r"
      "run_chain e r (rag_type request) (strip (question request)) = Inr ans"
      "get_relevant_documents e r (strip (question request)) = Inr relevant_docs"
      "document_id (session_of st ui) = Some did"
      "ask_question e ui request st =
         (Inr \<lparr>answer = ans, sources = source_previews relevant_docs\<rparr>,
          (with_session st ui)\<lparr>db := (db st)\<lparr>tbl_conversations := tbl_conversations (db st) @
                  [\<lparr>c_user_id = ui_user_id ui, c_document_id = did,
                    c_question = strip (question request), c_answer = ans,
                    c_rag_type = rag_type request\<rparr>]\<rparr>\<rparr>)"
proof (cases "retriever (session_of st ui)")
  case None
  then show ?thesis by (intro failure) (simp add: ask_question_unfold)
next
  case (Some r)
  show ?thesis
  proof (cases "run_chain e r (rag_type request) (strip (question request))")
    case (Inl a)
    with Some show ?thesis by (intro failure) (simp add: ask_question_unfold)
  next
    case ans: (Inr ans)
    show ?thesis
    proof (cases "get_relevant_documents e r (strip (question request))")
      case (Inl a)
      with Some ans show ?thesis by (intro failure) (simp add: ask_question_unfold)
    next
      case docs: (Inr relevant_docs)
      show ?thesis
      proof (cases "save_conversation e ui (session_of st ui) (strip (question request)) ans
                            (rag_type request) (db st)")
        case (Inl a)
        with Some ans docs show ?thesis by (intro failure) (simp add: ask_question_unfold)
      next
        case (Inr d')
        from save_conversation_appends [OF Inr] obtain did where
          "document_id (session_of st ui) = Some did"
          "d' = (db st)\<lparr>tbl_conversations := tbl_conversations (db st) @
                  [\<lparr>c_user_id = ui_user_id ui, c_document_id = did,
                    c_question = strip (question request), c_answer = ans,
                    c_rag_type = rag_type request\<rparr>]\<rparr>"
          by blast
        with Some ans docs Inr show ?thesis
          by (intro success [of r ans relevant_docs did]) (simp_all add: ask_question_unfold)
      qed
    qed
  qed
qed




lemma source_previews_bounds:
  "length (source_previews docs) \<le> 3 \<and> (\<forall>p \<in> set (source_previews docs). length p \<le> 203)"
  by (auto simp: source_previews_def py_def)

text \<open>
  C9. Whatever the strategy tag, the previews of a successful answer are computed from one
  more retrieval on the stripped question itself: the first three of the retrieved chunks,
  each cut to its first 200 characters and followed by three dots. So there are at most 3
  previews, each of at most 203 characters.
\<close>

theorem ask_question_sources:
  assumes "ask_question e ui request st = (Inr resp, st')"
  shows "(\<exists>r docs. retriever (session_of st ui) = Some r
            \<and> get_relevant_documents e r (strip (question request)) = Inr docs
            \<and> sources resp = map (\<lambda>doc. take 200 (page_content doc) @ py ''...'') (take 3 docs))
       \<and> length (sources resp) \<le> 3
       \<and> (\<forall>p \<in> set (sources resp). length p \<le> 203)"
proof (cases rule: ask_question_cases [of e ui request st])
  case (failure err)
  with assms show ?thesis by simp
next
  case (success r ans relevant_docs did)
  with assms have resp: "sources resp = source_previews relevant_docs" by auto
  with success(1,3) source_previews_bounds [of relevant_docs] show ?thesis
    by (auto simp: source_previews_def)
qed

theorem ask_question_sources_witness:
  "sources (projr (fst (ask_question example_env example_user example_request example_state)))
     = [py ''what is rag...'']
   \<and> length (sources (projr (fst (ask_question example_env example_user example_request
         example_state)))) \<le> 3"
proof -
  let ?out = "ask_question example_env example_user example_request example_state"
  have out: "fst ?out = Inr \<lparr>answer = py ''answer'', sources = [py ''what is rag...'']\<rparr>"
    by (simp add: ask_eval example_request_def)
  then have run: "?out = (Inr \<lparr>answer = py ''answer'', sources = [py ''what is rag...'']\<rparr>, snd ?out)"
    by (simp add: prod_eq_iff)
  from ask_question_sources [OF run] out show ?thesis
    by simp
qed

text \<open>
  C10. \<open>ask_question\<close>, whether it answers or fails, leaves the session of the user as the
  request found it (documents, source name and kind, index handle, retriever, document id),
  leaves the sessions of all other users and the tables of users, tokens and documents as
  they were, and changes the conversation log only on success, by appending the one record
  of this question.
\<close>

theorem ask_question_frame:
  "session_of (snd (ask_question e ui request st)) ui = session_of st ui
   \<and> (\<forall>uid. uid \<noteq> ui_user_id ui \<longrightarrow>
         user_sessions (snd (ask_question e ui request st)) uid = user_sessions st uid)
   \<and> (user_sessions st (ui_user_id ui) \<noteq> None \<longrightarrow>
         user_sessions (snd (ask_question e ui request st)) = user_sessions st)
   \<and> tbl_users (db (snd (ask_question e ui request st))) = tbl_users (db st)
   \<and> tbl_sessions (db (snd (ask_question e ui request st))) = tbl_sessions (db st)
   \<and> tbl_documents (db (snd (ask_question e ui request st))) = tbl_documents (db st)
   \<and> (case fst (ask_question e ui request st) of
         Inl err \<Rightarrow>
           tbl_conversations (db (snd (ask_question e ui request st))) = tbl_conversations (db st)
       | Inr resp \<Rightarrow>
           (\<exists>did. document_id (session_of st ui) = Some did
              \<and> tbl_conversations (db (snd (ask_question e ui request st)))
                  = tbl_conversations (db st) @
                     [\<lparr>c_user_id = ui_user_id ui, c_document_id = did,
                       c_question = strip (question request), c_answer = answer resp,
                       c_rag_type = rag_type request\<rparr>]))"
proof (cases rule: ask_question_cases [of e ui request st])
  case (failure err)
  then show ?thesis by (simp add: with_session_present)
next
  case (success r ans relevant_docs did)
  then show ?thesis by (simp add: with_session_present)
qed

theorem ask_question_frame_witness:
  "session_of (snd (ask_question example_env example_user example_request example_state))
      example_user = example_session
   \<and> tbl_conversations (db (snd (ask_question example_env example_user example_request
        example_state)))
      = [\<lparr>c_user_id = 1, c_document_id = 1, c_question = py ''what is rag'',
           c_answer = py ''answer'', c_rag_type = py ''fancy''\<rparr>]"
proof -
  have "fst (ask_question example_env example_user example_request example_state)
       = Inr \<lparr>answer = py ''answer'', sources = [py ''what is rag...'']\<rparr>"
    by (simp add: ask_eval example_request_def)
  moreover have "session_of example_state example_user = example_session"
    "tbl_conversations (db example_state) = []" "strip (question example_request) = py ''what is rag''"
    by (simp_all add: ask_eval example_request_def)
  ultimately show ?thesis
    using ask_question_frame [of example_env example_user example_request example_state]
    by (simp add: example_user_def example_request_def example_session_def)
qed

end
